theory Spec2Isabelle
  imports Main "HOL-Library.Multiset" "HOL-Library.Product_Lexorder"
begin

section \<open>Data model\<close>

text \<open>
  Python strings are sequences of Unicode code points, and both \<open>str.strip\<close> and the
  declared column lengths count code points. A string is therefore a list of code points;
  \<open>cp\<close> turns a literal of the source into such a list.
\<close>

type_synonym pystr = "nat list"

definition cp :: "string \<Rightarrow> pystr" where
  "cp s = map of_char s"

text \<open>
  \<open>class Todo(db.Model)\<close>: one row of the table. \<open>id\<close> is the integer primary key,
  \<open>created_at\<close> the value of the server clock at insertion (a point on an integer time
  line). The table is the list of its rows in insertion order.
\<close>

record todo =
  id_pk :: int
  content :: pystr
  priority :: pystr
  created_at :: int

text \<open>
  The JSON bodies the handlers answer with, one constructor per shape of dictionary passed
  to \<open>jsonify\<close>, and the response as the pair of body and status code that the handlers
  return (200 where the source gives no code).
\<close>

record statistics =
  total :: nat
  high_priority :: nat
  medium_priority :: nat
  low_priority :: nat

datatype body =
    ErrorBody pystr
  | MessageBody pystr
  | CreatedBody int pystr pystr
  | UpdatedBody int pystr pystr int
  | ListBody "todo list" statistics
  | ReplyBody pystr

type_synonym response = "body \<times> nat"

section \<open>Listing\<close>

text \<open>
  The \<open>case\<close> expression of \<open>get_todos\<close>: the rank of a priority value. The comparison is
  SQLite's, exact and case sensitive.
\<close>

definition priority_order :: "pystr \<Rightarrow> int" where
  "priority_order p =
     (if p = cp ''high'' then 3
      else if p = cp ''medium'' then 2
      else if p = cp ''low'' then 1
      else 0)"

text \<open>
  \<open>Todo.query.order_by(priority_order.desc(), Todo.created_at.desc()).all()\<close>: the rows
  sorted on the compound key, both components descending. Rows that agree on both
  components come out in table order here; SQL leaves their order open, and nothing below
  depends on it.
\<close>

definition order_by :: "todo list \<Rightarrow> todo list" where
  "order_by rows =
     sort_key (\<lambda>t. (- priority_order (priority t), - created_at t)) rows"

definition count_priority :: "pystr \<Rightarrow> todo list \<Rightarrow> nat" where
  "count_priority p todos = length (filter (\<lambda>t. priority t = p) todos)"

definition get_todos :: "todo list \<Rightarrow> response" where
  "get_todos rows =
     (let todos = order_by rows;
          high = count_priority (cp ''high'') todos;
          medium = count_priority (cp ''medium'') todos;
          low = count_priority (cp ''low'') todos
      in (ListBody todos
            \<lparr>total = length todos, high_priority = high,
             medium_priority = medium, low_priority = low\<rparr>, 200))"

text \<open>The \<open>todos\<close> and \<open>statistics\<close> entries of a list response.\<close>

fun todos_of :: "response \<Rightarrow> todo list" where
  "todos_of (ListBody ts st, code) = ts"
| "todos_of (b, code) = []"

definition no_statistics :: statistics where
  "no_statistics = \<lparr>total = 0, high_priority = 0, medium_priority = 0, low_priority = 0\<rparr>"

fun statistics_of :: "response \<Rightarrow> statistics" where
  "statistics_of (ListBody ts st, code) = st"
| "statistics_of (b, code) = no_statistics"

text \<open>
  The order the list is specified to have: \<open>a\<close> may stand before \<open>b\<close> when its rank is
  higher, or the ranks are equal and \<open>a\<close> is not older than \<open>b\<close>.
\<close>

definition may_precede :: "todo \<Rightarrow> todo \<Rightarrow> bool" where
  "may_precede a b \<longleftrightarrow>
     priority_order (priority a) > priority_order (priority b)
     \<or> (priority_order (priority a) = priority_order (priority b)
        \<and> created_at a \<ge> created_at b)"

section \<open>Exceptions\<close>

text \<open>
  The exceptions the handlers catch, with what each carries: \<open>NotFound\<close> of
  \<open>get_or_404\<close>; \<open>UnicodeEncodeError\<close> of the database driver, with the string, and the
  start and the end of the run of characters it cannot encode; \<open>AttributeError\<close>, with
  the name of the type and of the attribute; and an exception of \<open>request.get_json\<close>,
  given by its text.
\<close>

datatype exn =
    NotFound
  | UnicodeEncodeError pystr nat nat
  | AttributeError pystr pystr
  | BodyError pystr

text \<open>
  A number in decimal digits, the four hexadecimal digits of a code point, and a text
  between single quotes.
\<close>

fun decimal :: "nat \<Rightarrow> pystr" where
  "decimal n = (if n < 10 then [48 + n] else decimal (n div 10) @ [48 + n mod 10])"

definition hex_digit :: "nat \<Rightarrow> nat" where
  "hex_digit d = (if d < 10 then 48 + d else 87 + d)"

definition hex4 :: "nat \<Rightarrow> pystr" where
  "hex4 c = [hex_digit (c div 4096 mod 16), hex_digit (c div 256 mod 16),
             hex_digit (c div 16 mod 16), hex_digit (c mod 16)]"

definition quoted :: "pystr \<Rightarrow> pystr" where
  "quoted s = 39 # s @ [39]"

text \<open>
  \<open>str(e)\<close>: for werkzeug's \<open>NotFound\<close> code, name and description; for the others the
  texts of the Python runtime. The character that cannot be encoded is written as a
  backslash, the letter u and its four hexadecimal digits.
\<close>

fun str_exn :: "exn \<Rightarrow> pystr" where
  "str_exn NotFound =
     cp (''404 Not Found: The requested URL was not found on the server. ''
         @ ''If you entered the URL manually please check your spelling and try again.'')"
| "str_exn (UnicodeEncodeError obj start end) =
     (if end = start + 1
      then quoted (cp ''utf-8'') @ cp '' codec can't encode character ''
           @ quoted (92 # 117 # hex4 (obj ! start))
           @ cp '' in position '' @ decimal start @ cp '': surrogates not allowed''
      else quoted (cp ''utf-8'') @ cp '' codec can't encode characters in position ''
           @ decimal start @ cp ''-'' @ decimal (end - 1)
           @ cp '': surrogates not allowed'')"
| "str_exn (AttributeError type_name attr) =
     quoted type_name @ cp '' object has no attribute '' @ quoted attr"
| "str_exn (BodyError text) = text"

section \<open>Text in the database\<close>

text \<open>
  The driver hands a text to SQLite in UTF-8. A surrogate code point has no encoding: the
  driver raises \<open>UnicodeEncodeError\<close> for the first run of surrogates in the text.
  \<open>utf8_error\<close> is that exception, or \<open>None\<close> for a text the driver takes.
\<close>

definition surrogate :: "nat \<Rightarrow> bool" where
  "surrogate c \<longleftrightarrow> 55296 \<le> c \<and> c \<le> 57343"

definition utf8_error :: "pystr \<Rightarrow> exn option" where
  "utf8_error s =
     (let start = length (takeWhile (\<lambda>c. \<not> surrogate c) s)
      in if start = length s then None
         else Some (UnicodeEncodeError s start
                      (start + length (takeWhile surrogate (drop start s)))))"

text \<open>
  The texts of a statement are bound in order, and the first that cannot be encoded
  raises.
\<close>

fun bind_parameters :: "pystr list \<Rightarrow> exn option" where
  "bind_parameters [] = None"
| "bind_parameters (v # vs) =
     (case utf8_error v of Some e \<Rightarrow> Some e | None \<Rightarrow> bind_parameters vs)"

section \<open>The session\<close>

text \<open>
  Every handler works through \<open>db.session\<close>. The session reads the table as of the start of
  the request and keeps its own changes until \<open>commit\<close>: \<open>pending\<close> is the table with
  these changes, \<open>params\<close> the texts that the statements for them will bind, in order.
  \<open>commit\<close> runs the statements: it raises when a text cannot be bound, and otherwise makes
  the changes the table (\<open>db\<close>). \<open>rollback\<close> drops the changes. When the request is over,
  Flask-SQLAlchemy removes the session, and what was not committed is lost: \<open>teardown\<close>
  gives the table the request leaves behind. Apart from the encoding of texts, the storage
  engine is taken to execute every statement it is given.
\<close>

record session =
  db :: "todo list"
  pending :: "todo list"
  params :: "pystr list"

definition begin_session :: "todo list \<Rightarrow> session" where
  "begin_session rows = \<lparr>db = rows, pending = rows, params = []\<rparr>"

definition commit :: "session \<Rightarrow> exn + session" where
  "commit s =
     (case bind_parameters (params s) of
        Some e \<Rightarrow> Inl e
      | None \<Rightarrow> Inr (s\<lparr>db := pending s, params := []\<rparr>))"

definition rollback :: "session \<Rightarrow> session" where
  "rollback s = s\<lparr>pending := db s, params := []\<rparr>"

definition teardown :: "session \<Rightarrow> todo list" where
  "teardown s = db s"

text \<open>\<open>Todo.query.get\<close>: the row with the given primary key, if there is one.\<close>

definition query_get :: "todo list \<Rightarrow> int \<Rightarrow> todo option" where
  "query_get rows todo_id = find (\<lambda>t. id_pk t = todo_id) rows"

definition get_or_404 :: "session \<Rightarrow> int \<Rightarrow> exn + todo" where
  "get_or_404 s todo_id =
     (case query_get (pending s) todo_id of
        None \<Rightarrow> Inl NotFound
      | Some t \<Rightarrow> Inr t)"

text \<open>
  The key SQLite gives a row inserted without one: 1 in an empty table, otherwise one more
  than the largest key in use. (With the largest 64-bit key in use SQLite would try keys
  at random; a table built by these handlers does not get there.)
\<close>

fun next_id :: "todo list \<Rightarrow> int" where
  "next_id [] = 1"
| "next_id (r # rs) = fold max (map id_pk rs) (id_pk r) + 1"

text \<open>
  \<open>db.session.add(Todo(content=..., priority=...))\<close>. The columns not given take their
  defaults: the key from the table, \<open>created_at\<close> from the clock (\<open>now\<close>). The INSERT
  binds the content and the priority. The declared lengths \<open>String(200)\<close> and
  \<open>String(20)\<close> are not checked, neither by SQLAlchemy nor by SQLite, so a text of any
  length is stored as it is.
\<close>

definition session_add :: "session \<Rightarrow> pystr \<Rightarrow> pystr \<Rightarrow> int \<Rightarrow> session \<times> todo" where
  "session_add s content_v priority_v now =
     (let new_todo = \<lparr>id_pk = next_id (pending s), content = content_v,
                      priority = priority_v, created_at = now\<rparr>
      in (s\<lparr>pending := pending s @ [new_todo],
            params := params s @ [content_v, priority_v]\<rparr>, new_todo))"

text \<open>\<open>db.session.delete(todo)\<close>: the row of the object goes. The DELETE binds no text.\<close>

definition session_delete :: "session \<Rightarrow> todo \<Rightarrow> session" where
  "session_delete s t = s\<lparr>pending := filter (\<lambda>r. id_pk r \<noteq> id_pk t) (pending s)\<rparr>"

text \<open>
  The assignments \<open>todo.content = v\<close> and \<open>todo.priority = v\<close>: the object changes, and
  the session holds the change of that one column for the row of the object's key. The
  UPDATE binds the new value of a column whose value has changed.
\<close>

definition assign_content :: "session \<Rightarrow> todo \<Rightarrow> pystr \<Rightarrow> session \<times> todo" where
  "assign_content s t v =
     (s\<lparr>pending := map (\<lambda>r. if id_pk r = id_pk t then r\<lparr>content := v\<rparr> else r) (pending s),
        params := params s @ (if v = content t then [] else [v])\<rparr>,
      t\<lparr>content := v\<rparr>)"

definition assign_priority :: "session \<Rightarrow> todo \<Rightarrow> pystr \<Rightarrow> session \<times> todo" where
  "assign_priority s t v =
     (s\<lparr>pending := map (\<lambda>r. if id_pk r = id_pk t then r\<lparr>priority := v\<rparr> else r) (pending s),
        params := params s @ (if v = priority t then [] else [v])\<rparr>,
      t\<lparr>priority := v\<rparr>)"

section \<open>Requests\<close>

text \<open>
  For the three handlers of the table, \<open>request.get_json()\<close> is a JSON object whose values
  are strings, as the interface declares the fields \<open>content\<close> and \<open>priority\<close>.
  \<open>dict_get\<close> is \<open>data.get(key, default)\<close>, and \<open>key in data\<close> is \<open>data key \<noteq> None\<close>.
\<close>

type_synonym json_object = "pystr \<rightharpoonup> pystr"

definition dict_get :: "('k \<rightharpoonup> 'v) \<Rightarrow> 'k \<Rightarrow> 'v \<Rightarrow> 'v" where
  "dict_get data key dflt = (case data key of None \<Rightarrow> dflt | Some v \<Rightarrow> v)"

text \<open>
  \<open>str.isspace\<close> on one code point, and \<open>str.strip()\<close>, which removes the whitespace at
  both ends.
\<close>

definition isspace :: "nat \<Rightarrow> bool" where
  "isspace c \<longleftrightarrow>
     (9 \<le> c \<and> c \<le> 13) \<or> (28 \<le> c \<and> c \<le> 32) \<or> c = 133 \<or> c = 160 \<or> c = 5760
     \<or> (8192 \<le> c \<and> c \<le> 8202) \<or> c = 8232 \<or> c = 8233 \<or> c = 8239 \<or> c = 8287
     \<or> c = 12288"

definition strip :: "pystr \<Rightarrow> pystr" where
  "strip s = rev (dropWhile isspace (rev (dropWhile isspace s)))"

section \<open>Creating, deleting and updating\<close>

text \<open>
  In each handler an exception is caught by \<open>except Exception\<close>, which rolls back and
  answers 400 with the text of the exception. (\<open>update_todo\<close> answers 500 for an
  \<open>SQLAlchemyError\<close>; none of the exceptions here is one, the driver's
  \<open>UnicodeEncodeError\<close> reaches the handler as it is.)
\<close>

definition add_todo :: "int \<Rightarrow> todo list \<Rightarrow> json_object \<Rightarrow> todo list \<times> response" where
  "add_todo now rows data =
     (let s = begin_session rows;
          content_v = strip (dict_get data (cp ''content'') []);
          priority_v = dict_get data (cp ''priority'') (cp ''medium'')
      in if content_v = []
         then (teardown s, (ErrorBody (cp ''Content is required''), 400))
         else
           (let (s1, new_todo) = session_add s content_v priority_v now
            in case commit s1 of
                 Inl e \<Rightarrow> (teardown (rollback s1), (ErrorBody (str_exn e), 400))
               | Inr s2 \<Rightarrow>
                   (teardown s2,
                    (CreatedBody (id_pk new_todo) (content new_todo) (priority new_todo),
                     201))))"

definition delete_todo :: "todo list \<Rightarrow> int \<Rightarrow> todo list \<times> response" where
  "delete_todo rows todo_id =
     (let s = begin_session rows
      in case get_or_404 s todo_id of
           Inl e \<Rightarrow> (teardown (rollback s), (ErrorBody (str_exn e), 400))
         | Inr t \<Rightarrow>
             (let s1 = session_delete s t
              in case commit s1 of
                   Inl e \<Rightarrow> (teardown (rollback s1), (ErrorBody (str_exn e), 400))
                 | Inr s2 \<Rightarrow>
                     (teardown s2, (MessageBody (cp ''Todo deleted successfully''), 200))))"

text \<open>
  The two guarded assignments of \<open>update_todo\<close>. Each gives the response of its early
  return, or the session and the object after the assignment.
\<close>

definition update_content :: "session \<Rightarrow> todo \<Rightarrow> json_object \<Rightarrow> response + session \<times> todo" where
  "update_content s t data =
     (if data (cp ''content'') \<noteq> None
      then
        (let new_content = strip (dict_get data (cp ''content'') [])
         in if new_content = []
            then Inl (ErrorBody (cp ''Content cannot be empty''), 400)
            else Inr (assign_content s t new_content))
      else Inr (s, t))"

definition update_priority :: "session \<Rightarrow> todo \<Rightarrow> json_object \<Rightarrow> response + session \<times> todo" where
  "update_priority s t data =
     (case data (cp ''priority'') of
        Some priority_v \<Rightarrow>
          (if priority_v \<notin> set [cp ''high'', cp ''medium'', cp ''low'']
           then Inl (ErrorBody (cp ''Invalid priority value''), 400)
           else Inr (assign_priority s t priority_v))
      | None \<Rightarrow> Inr (s, t))"

definition update_todo :: "todo list \<Rightarrow> int \<Rightarrow> json_object \<Rightarrow> todo list \<times> response" where
  "update_todo rows todo_id data =
     (let s = begin_session rows
      in case get_or_404 s todo_id of
           Inl e \<Rightarrow> (teardown (rollback s), (ErrorBody (str_exn e), 400))
         | Inr t \<Rightarrow>
             (case update_content s t data of
                Inl r \<Rightarrow> (teardown s, r)
              | Inr (s1, t1) \<Rightarrow>
                  (case update_priority s1 t1 data of
                     Inl r \<Rightarrow> (teardown s1, r)
                   | Inr (s2, t2) \<Rightarrow>
                       (case commit s2 of
                          Inl e \<Rightarrow> (teardown (rollback s2), (ErrorBody (str_exn e), 400))
                        | Inr s3 \<Rightarrow>
                            (teardown s3,
                             (UpdatedBody (id_pk t2) (content t2) (priority t2)
                                (created_at t2), 200))))))"

section \<open>The assistant\<close>

text \<open>
  The body of an assistant request is anything a client can send. A value of a JSON object
  is a string or not; of a value that is not a string the handler takes its truth value
  (\<open>not user_input\<close>) and the text that Python formats it to (in the f-string), and
  \<open>JOther\<close> gives the value by these two. \<open>request.get_json()\<close> raises (\<open>Raises\<close>, with the
  text of the exception), or yields a value that is not an object (\<open>NotObject\<close>, with its
  Python type), or an object.
\<close>

datatype json = JStr pystr | JOther bool pystr

datatype pytype = NoneType | PyBool | PyInt | PyFloat | PyStr | PyList

datatype request_body = Raises pystr | NotObject pytype | Object "pystr \<rightharpoonup> json"

fun type_name :: "pytype \<Rightarrow> pystr" where
  "type_name NoneType = cp ''NoneType''"
| "type_name PyBool = cp ''bool''"
| "type_name PyInt = cp ''int''"
| "type_name PyFloat = cp ''float''"
| "type_name PyStr = cp ''str''"
| "type_name PyList = cp ''list''"

fun truthy :: "json \<Rightarrow> bool" where
  "truthy (JStr s) = (s \<noteq> [])"
| "truthy (JOther b text) = b"

fun format_value :: "json \<Rightarrow> pystr" where
  "format_value (JStr s) = s"
| "format_value (JOther b text) = text"

text \<open>
  The process holds \<open>GENAI_AVAILABLE\<close> and \<open>model\<close>, set once at start. The model is the
  external service: given a prompt, \<open>generate_content\<close> and the reading of its \<open>text\<close>
  yield the text (\<open>Inr\<close>) or raise, with a message (\<open>Inl\<close>). Besides the response the
  handler gives the prompts it sent to the service, in order. Every exception is caught by
  \<open>except Exception\<close> and answered 500 with its text.
\<close>

type_synonym generative_model = "pystr \<Rightarrow> pystr + pystr"

definition get_ai_response ::
  "bool \<Rightarrow> generative_model option \<Rightarrow> request_body \<Rightarrow> response \<times> pystr list" where
  "get_ai_response GENAI_AVAILABLE model body =
     (if \<not> GENAI_AVAILABLE
      then ((ErrorBody (cp ''AI assistant is not available''), 503), [])
      else
        (case body of
           Raises text \<Rightarrow> ((ErrorBody (str_exn (BodyError text)), 500), [])
         | NotObject ty \<Rightarrow>
             ((ErrorBody (str_exn (AttributeError (type_name ty) (cp ''get''))), 500), [])
         | Object data \<Rightarrow>
             (let user_input = dict_get data (cp ''input'') (JStr [])
              in if \<not> truthy user_input
                 then ((ErrorBody (cp ''Empty input''), 400), [])
                 else
                   (let prompt = cp ''As a todo list assistant, help with this question: ''
                                 @ format_value user_input
                    in case model of
                         None \<Rightarrow>
                           ((ErrorBody
                               (str_exn (AttributeError (cp ''NoneType'')
                                           (cp ''generate_content''))), 500), [])
                       | Some generate_content \<Rightarrow>
                           (case generate_content prompt of
                              Inl e \<Rightarrow> ((ErrorBody e, 500), [prompt])
                            | Inr text \<Rightarrow> ((ReplyBody text, 200), [prompt]))))))"

text \<open>The status codes 400 to 499 are the client errors.\<close>

definition client_error :: "nat \<Rightarrow> bool" where
  "client_error code \<longleftrightarrow> 400 \<le> code \<and> code < 500"

section \<open>The invariant of the data model\<close>

text \<open>
  What the data model requires of a stored task: a content that is not empty and one of
  the three priorities.
\<close>

definition valid_todo :: "todo \<Rightarrow> bool" where
  "valid_todo t \<longleftrightarrow> content t \<noteq> [] \<and> priority t \<in> set [cp ''high'', cp ''medium'', cp ''low'']"

section \<open>Properties of the listing\<close>

lemma cp_eq_iff: "cp a = cp b \<longleftrightarrow> a = b"
proof -
  have "inj (of_char :: char \<Rightarrow> nat)"
    by (rule inj_on_inverseI [where g = char_of]) simp
  then show ?thesis
    unfolding cp_def by (simp add: inj_map_eq_map)
qed

lemma priority_order_values:
  "priority_order (cp ''high'') = 3"
  "priority_order (cp ''medium'') = 2"
  "priority_order (cp ''low'') = 1"
  by (simp_all add: priority_order_def cp_eq_iff)

lemma priority_order_other:
  "p \<noteq> cp ''high'' \<Longrightarrow> p \<noteq> cp ''medium'' \<Longrightarrow> p \<noteq> cp ''low'' \<Longrightarrow> priority_order p = 0"
  by (simp add: priority_order_def)

lemma mset_order_by: "mset (order_by rows) = mset rows"
  by (simp add: order_by_def)

lemma sorted_order_by: "sorted_wrt may_precede (order_by rows)"
proof -
  let ?k = "\<lambda>t. (- priority_order (priority t), - created_at t)"
  have "sorted (map ?k (order_by rows))"
    unfolding order_by_def by (rule sorted_sort_key)
  then have "sorted_wrt (\<lambda>a b. ?k a \<le> ?k b) (order_by rows)"
    by (simp add: sorted_map)
  moreover have "?k a \<le> ?k b \<Longrightarrow> may_precede a b" for a b
    by (auto simp: may_precede_def)
  ultimately show ?thesis
    by (rule sorted_wrt_mono_rel [rotated]) simp
qed

lemma order_by_example:
  assumes "t1 < t2" "t2 < t3" "t3 < t4"
  shows "order_by
           [\<lparr>id_pk = i1, content = c1, priority = cp ''low'', created_at = t1\<rparr>,
            \<lparr>id_pk = i2, content = c2, priority = cp ''high'', created_at = t2\<rparr>,
            \<lparr>id_pk = i3, content = c3, priority = cp ''medium'', created_at = t3\<rparr>,
            \<lparr>id_pk = i4, content = c4, priority = cp ''high'', created_at = t4\<rparr>]
         = [\<lparr>id_pk = i4, content = c4, priority = cp ''high'', created_at = t4\<rparr>,
            \<lparr>id_pk = i2, content = c2, priority = cp ''high'', created_at = t2\<rparr>,
            \<lparr>id_pk = i3, content = c3, priority = cp ''medium'', created_at = t3\<rparr>,
            \<lparr>id_pk = i1, content = c1, priority = cp ''low'', created_at = t1\<rparr>]"
  using assms by (simp add: order_by_def priority_order_values)

lemma todos_of_get_todos: "todos_of (get_todos rows) = order_by rows"
  by (simp add: get_todos_def Let_def)

lemma status_get_todos: "snd (get_todos rows) = 200"
  by (simp add: get_todos_def Let_def)

lemma statistics_of_get_todos:
  "statistics_of (get_todos rows) =
     \<lparr>total = length (order_by rows),
      high_priority = count_priority (cp ''high'') (order_by rows),
      medium_priority = count_priority (cp ''medium'') (order_by rows),
      low_priority = count_priority (cp ''low'') (order_by rows)\<rparr>"
  by (simp add: get_todos_def Let_def)

lemma set_order_by: "set (order_by rows) = set rows"
  by (simp add: order_by_def)

lemma length_three_priorities:
  assumes "\<forall>t\<in>set ts. priority t = h \<or> priority t = m \<or> priority t = l"
    and "h \<noteq> m" "h \<noteq> l" "m \<noteq> l"
  shows "length ts = count_priority h ts + count_priority m ts + count_priority l ts"
  using assms by (induction ts) (auto simp: count_priority_def)

text \<open>
  C1. For every table, the list operation answers 200 with the rows of the table, each
  once, in an order where a row of higher rank stands before one of lower rank and, among
  rows of equal rank, the newer one first. The ranks are 3 for high, 2 for medium, 1 for
  low and 0 for any other value. Four tasks of priorities low, high, medium, high with
  strictly increasing creation times are listed as high (later), high (earlier), medium,
  low.
\<close>

theorem get_todos_ordering:
  "snd (get_todos rows) = 200
   \<and> mset (todos_of (get_todos rows)) = mset rows
   \<and> sorted_wrt may_precede (todos_of (get_todos rows))
   \<and> priority_order (cp ''high'') = 3
   \<and> priority_order (cp ''medium'') = 2
   \<and> priority_order (cp ''low'') = 1
   \<and> (p \<notin> {cp ''high'', cp ''medium'', cp ''low''} \<longrightarrow> priority_order p = 0)
   \<and> (t1 < t2 \<and> t2 < t3 \<and> t3 < t4 \<longrightarrow>
        todos_of (get_todos
          [\<lparr>id_pk = i1, content = c1, priority = cp ''low'', created_at = t1\<rparr>,
           \<lparr>id_pk = i2, content = c2, priority = cp ''high'', created_at = t2\<rparr>,
           \<lparr>id_pk = i3, content = c3, priority = cp ''medium'', created_at = t3\<rparr>,
           \<lparr>id_pk = i4, content = c4, priority = cp ''high'', created_at = t4\<rparr>])
        = [\<lparr>id_pk = i4, content = c4, priority = cp ''high'', created_at = t4\<rparr>,
           \<lparr>id_pk = i2, content = c2, priority = cp ''high'', created_at = t2\<rparr>,
           \<lparr>id_pk = i3, content = c3, priority = cp ''medium'', created_at = t3\<rparr>,
           \<lparr>id_pk = i1, content = c1, priority = cp ''low'', created_at = t1\<rparr>])"
  unfolding todos_of_get_todos
  by (intro conjI impI)
    (simp_all add: status_get_todos mset_order_by sorted_order_by priority_order_values
      priority_order_other order_by_example)

theorem get_todos_ordering_witness:
  "(10::int) < 20 \<and> (20::int) < 30 \<and> (30::int) < 40
   \<and> todos_of (get_todos
          [\<lparr>id_pk = 1, content = cp ''a'', priority = cp ''low'', created_at = 10\<rparr>,
           \<lparr>id_pk = 2, content = cp ''b'', priority = cp ''high'', created_at = 20\<rparr>,
           \<lparr>id_pk = 3, content = cp ''c'', priority = cp ''medium'', created_at = 30\<rparr>,
           \<lparr>id_pk = 4, content = cp ''d'', priority = cp ''high'', created_at = 40\<rparr>])
        = [\<lparr>id_pk = 4, content = cp ''d'', priority = cp ''high'', created_at = 40\<rparr>,
           \<lparr>id_pk = 2, content = cp ''b'', priority = cp ''high'', created_at = 20\<rparr>,
           \<lparr>id_pk = 3, content = cp ''c'', priority = cp ''medium'', created_at = 30\<rparr>,
           \<lparr>id_pk = 1, content = cp ''a'', priority = cp ''low'', created_at = 10\<rparr>]
   \<and> cp ''urgent'' \<notin> {cp ''high'', cp ''medium'', cp ''low''}
   \<and> priority_order (cp ''urgent'') = 0"
  using get_todos_ordering [where p = "cp ''urgent''" and ?t1.0 = 10 and ?t2.0 = 20
      and ?t3.0 = 30 and ?t4.0 = 40 and ?i1.0 = 1 and ?i2.0 = 2 and ?i3.0 = 3 and ?i4.0 = 4
      and ?c1.0 = "cp ''a''" and ?c2.0 = "cp ''b''" and ?c3.0 = "cp ''c''" and ?c4.0 = "cp ''d''"
      and rows = "[]"]
  by (simp add: cp_eq_iff)

text \<open>
  C6. When every task of the table has one of the priorities high, medium and low, the
  list response (status 200) has a total equal to the sum of the three counts, and each
  count is the number of listed tasks of that priority.
\<close>

theorem statistics_total:
  assumes "\<forall>t\<in>set rows. priority t \<in> {cp ''high'', cp ''medium'', cp ''low''}"
  shows "snd (get_todos rows) = 200
    \<and> total (statistics_of (get_todos rows))
        = high_priority (statistics_of (get_todos rows))
          + medium_priority (statistics_of (get_todos rows))
          + low_priority (statistics_of (get_todos rows))
    \<and> high_priority (statistics_of (get_todos rows))
        = length (filter (\<lambda>t. priority t = cp ''high'') (todos_of (get_todos rows)))
    \<and> medium_priority (statistics_of (get_todos rows))
        = length (filter (\<lambda>t. priority t = cp ''medium'') (todos_of (get_todos rows)))
    \<and> low_priority (statistics_of (get_todos rows))
        = length (filter (\<lambda>t. priority t = cp ''low'') (todos_of (get_todos rows)))"
proof -
  have "\<forall>t\<in>set (order_by rows).
          priority t = cp ''high'' \<or> priority t = cp ''medium'' \<or> priority t = cp ''low''"
    using assms by (simp add: set_order_by)
  then have "length (order_by rows)
      = count_priority (cp ''high'') (order_by rows)
        + count_priority (cp ''medium'') (order_by rows)
        + count_priority (cp ''low'') (order_by rows)"
    by (rule length_three_priorities) (simp_all add: cp_eq_iff)
  then show ?thesis
    by (simp add: statistics_of_get_todos todos_of_get_todos status_get_todos
        count_priority_def)
qed

theorem statistics_total_witness:
  "set (map priority
         [\<lparr>id_pk = 1, content = cp ''a'', priority = cp ''low'', created_at = 10\<rparr>,
          \<lparr>id_pk = 2, content = cp ''b'', priority = cp ''high'', created_at = 20\<rparr>,
          \<lparr>id_pk = 3, content = cp ''c'', priority = cp ''low'', created_at = 30\<rparr>])
     \<subseteq> {cp ''high'', cp ''medium'', cp ''low''}
   \<and> statistics_of (get_todos
         [\<lparr>id_pk = 1, content = cp ''a'', priority = cp ''low'', created_at = 10\<rparr>,
          \<lparr>id_pk = 2, content = cp ''b'', priority = cp ''high'', created_at = 20\<rparr>,
          \<lparr>id_pk = 3, content = cp ''c'', priority = cp ''low'', created_at = 30\<rparr>])
       = \<lparr>total = 3, high_priority = 1, medium_priority = 0, low_priority = 2\<rparr>
   \<and> (3::nat) = 1 + 0 + 2"
proof -
  let ?rows = "[\<lparr>id_pk = 1, content = cp ''a'', priority = cp ''low'', created_at = 10\<rparr>,
              \<lparr>id_pk = 2, content = cp ''b'', priority = cp ''high'', created_at = 20\<rparr>,
              \<lparr>id_pk = 3, content = cp ''c'', priority = cp ''low'', created_at = 30\<rparr>]"
  have h: "\<forall>t\<in>set ?rows. priority t \<in> {cp ''high'', cp ''medium'', cp ''low''}"
    by simp
  have "statistics_of (get_todos ?rows)
       = \<lparr>total = 3, high_priority = 1, medium_priority = 0, low_priority = 2\<rparr>"
    by (simp add: statistics_of_get_todos order_by_def count_priority_def
        priority_order_values cp_eq_iff)
  with h statistics_total [OF h] show ?thesis by simp
qed

section \<open>Properties of create\<close>





lemma utf8_error_None_iff: "utf8_error s = None \<longleftrightarrow> (\<forall>c\<in>set s. \<not> surrogate c)"
proof -
  have "length (takeWhile (\<lambda>c. \<not> surrogate c) s) = length s \<longleftrightarrow> (\<forall>c\<in>set s. \<not> surrogate c)"
    by (induction s) auto
  then show ?thesis
    by (simp add: utf8_error_def Let_def)
qed

lemma utf8_error_cp: "utf8_error (cp s) = None"
proof -
  have "\<not> surrogate (of_char c)" for c :: char
  proof -
    have "of_char c < (256::nat)" by simp
    then show ?thesis unfolding surrogate_def by linarith
  qed
  then show ?thesis
    by (auto simp: utf8_error_None_iff cp_def)
qed





lemma add_todo_blank:
  "strip (dict_get data (cp ''content'') []) = [] \<Longrightarrow>
   add_todo now rows data = (rows, (ErrorBody (cp ''Content is required''), 400))"
  by (simp add: add_todo_def Let_def begin_session_def teardown_def)

lemma add_todo_stored:
  "strip (dict_get data (cp ''content'') []) \<noteq> [] \<Longrightarrow>
   utf8_error (strip (dict_get data (cp ''content'') [])) = None \<Longrightarrow>
   utf8_error (dict_get data (cp ''priority'') (cp ''medium'')) = None \<Longrightarrow>
   add_todo now rows data =
     (rows @ [\<lparr>id_pk = next_id rows,
                content = strip (dict_get data (cp ''content'') []),
                priority = dict_get data (cp ''priority'') (cp ''medium''),
                created_at = now\<rparr>],
      (CreatedBody (next_id rows) (strip (dict_get data (cp ''content'') []))
         (dict_get data (cp ''priority'') (cp ''medium'')), 201))"
  by (simp add: add_todo_def Let_def begin_session_def teardown_def session_add_def commit_def)

lemma add_todo_not_stored:
  assumes "strip (dict_get data (cp ''content'') []) \<noteq> []"
    and "utf8_error (strip (dict_get data (cp ''content'') [])) \<noteq> None
         \<or> utf8_error (dict_get data (cp ''priority'') (cp ''medium'')) \<noteq> None"
  shows "fst (add_todo now rows data) = rows \<and> snd (snd (add_todo now rows data)) = 400"
proof -
  have "bind_parameters [strip (dict_get data (cp ''content'') []),
          dict_get data (cp ''priority'') (cp ''medium'')] \<noteq> None"
    using assms(2) by (auto split: option.splits)
  then obtain e where "bind_parameters [strip (dict_get data (cp ''content'') []),
          dict_get data (cp ''priority'') (cp ''medium'')] = Some e"
    by blast
  then show ?thesis
    using assms(1)
    by (simp add: add_todo_def Let_def begin_session_def teardown_def session_add_def
        commit_def rollback_def)
qed







lemma strip_no_space:
  assumes "s \<noteq> []" "\<not> isspace (hd s)" "\<not> isspace (last s)"
  shows "strip s = s"
proof -
  have d: "dropWhile P xs = xs" if "xs \<noteq> []" "\<not> P (hd xs)" for P and xs :: pystr
    using that by (cases xs) simp_all
  have "dropWhile isspace s = s"
    using assms by (simp add: d)
  moreover have "dropWhile isspace (rev s) = rev s"
    using assms by (intro d) (simp_all add: hd_rev)
  ultimately show ?thesis
    by (simp add: strip_def)
qed

lemma strip_replicate_a: "0 < n \<Longrightarrow> strip (replicate n 97) = replicate n 97"
  by (rule strip_no_space) (simp_all add: isspace_def)

lemma utf8_error_replicate_a: "utf8_error (replicate n 97) = None"
  by (simp add: utf8_error_None_iff surrogate_def)

lemma add_todo_content_nonempty:
  assumes "\<forall>t\<in>set rows. content t \<noteq> []"
  shows "\<forall>t\<in>set (fst (add_todo now rows data)). content t \<noteq> []"
proof (cases "strip (dict_get data (cp ''content'') []) = []")
  case True
  with assms show ?thesis by (simp add: add_todo_blank)
next
  case False
  show ?thesis
  proof (cases "utf8_error (strip (dict_get data (cp ''content'') [])) = None
      \<and> utf8_error (dict_get data (cp ''priority'') (cp ''medium'')) = None")
    case True
    with False assms show ?thesis by (simp add: add_todo_stored)
  next
    case False
    then have "utf8_error (strip (dict_get data (cp ''content'') [])) \<noteq> None
         \<or> utf8_error (dict_get data (cp ''priority'') (cp ''medium'')) \<noteq> None"
      by simp
    from add_todo_not_stored [OF \<open>strip (dict_get data (cp ''content'') []) \<noteq> []\<close> this]
    show ?thesis using assms by simp
  qed
qed

lemma add_todo_200_characters:
  "snd (snd (add_todo now rows [cp ''content'' \<mapsto> replicate 200 97])) = 201"
proof -
  have k: "cp ''priority'' \<noteq> cp ''content''"
    by (simp add: cp_eq_iff)
  have c: "strip (dict_get [cp ''content'' \<mapsto> replicate 200 97] (cp ''content'') [])
      = replicate 200 97"
    by (simp add: dict_get_def strip_replicate_a)
  have p: "dict_get [cp ''content'' \<mapsto> replicate 200 97] (cp ''priority'') (cp ''medium'')
      = cp ''medium''"
    using k by (simp add: dict_get_def)
  have "add_todo now rows [cp ''content'' \<mapsto> replicate 200 97]
      = (rows @ [\<lparr>id_pk = next_id rows, content = replicate 200 97,
                   priority = cp ''medium'', created_at = now\<rparr>],
         (CreatedBody (next_id rows) (replicate 200 97) (cp ''medium''), 201))"
    using add_todo_stored [of "[cp ''content'' \<mapsto> replicate 200 97]" now rows]
    unfolding c p by (simp add: utf8_error_replicate_a utf8_error_cp)
  then show ?thesis by simp
qed

text \<open>
  C2. Every stored task is to have a content that is not empty and a priority among high,
  medium and low, whatever requests were served. \<open>add_todo\<close> does not look at the
  priority it is given: on an empty table the request with content x and priority urgent
  is answered 201 and leaves a task of priority urgent in the table.
\<close>

theorem add_todo_unchecked_priority:
  "cp ''urgent'' \<notin> {cp ''high'', cp ''medium'', cp ''low''}
   \<and> add_todo 0 [] [cp ''content'' \<mapsto> cp ''x'', cp ''priority'' \<mapsto> cp ''urgent'']
       = ([\<lparr>id_pk = 1, content = cp ''x'', priority = cp ''urgent'', created_at = 0\<rparr>],
          (CreatedBody 1 (cp ''x'') (cp ''urgent''), 201))"
proof -
  let ?d = "[cp ''content'' \<mapsto> cp ''x'', cp ''priority'' \<mapsto> cp ''urgent'']"
  have s: "strip (cp ''x'') = cp ''x''" "cp ''x'' \<noteq> []"
    by (simp_all add: strip_def cp_def isspace_def)
  have k: "cp ''priority'' \<noteq> cp ''content''"
    by (simp add: cp_eq_iff)
  have c: "strip (dict_get ?d (cp ''content'') []) = cp ''x''"
    using k by (simp add: dict_get_def s)
  have p: "dict_get ?d (cp ''priority'') (cp ''medium'') = cp ''urgent''"
    by (simp add: dict_get_def)
  have "add_todo 0 [] ?d
       = ([\<lparr>id_pk = 1, content = cp ''x'', priority = cp ''urgent'', created_at = 0\<rparr>],
          (CreatedBody 1 (cp ''x'') (cp ''urgent''), 201))"
    using add_todo_stored [of ?d 0 "[]"] s(2)
    unfolding c p by (simp add: utf8_error_cp)
  then show ?thesis
    by (simp add: cp_eq_iff)
qed

text \<open>
  C9. A content of 201 characters is to be refused. \<open>add_todo\<close> has no check of the
  length and the table takes a text of any length: the request with a content of 201
  letters a is answered 201, and the task is stored with all 201 characters.
\<close>

theorem add_todo_201_characters:
  "length (replicate 201 (97::nat)) = 201
   \<and> strip (replicate 201 97) = replicate 201 97
   \<and> add_todo 0 [] [cp ''content'' \<mapsto> replicate 201 97]
       = ([\<lparr>id_pk = 1, content = replicate 201 97, priority = cp ''medium'', created_at = 0\<rparr>],
          (CreatedBody 1 (replicate 201 97) (cp ''medium''), 201))"
proof -
  let ?d = "[cp ''content'' \<mapsto> replicate 201 (97::nat)]"
  have s: "strip (replicate 201 97) = replicate 201 97"
    by (rule strip_replicate_a) simp
  have n: "replicate 201 (97::nat) \<noteq> []"
    by simp
  have k: "cp ''priority'' \<noteq> cp ''content''"
    by (simp add: cp_eq_iff)
  have c: "strip (dict_get ?d (cp ''content'') []) = replicate 201 97"
    by (simp add: dict_get_def s)
  have p: "dict_get ?d (cp ''priority'') (cp ''medium'') = cp ''medium''"
    using k by (simp add: dict_get_def)
  have "add_todo 0 [] ?d
       = ([\<lparr>id_pk = 1, content = replicate 201 97, priority = cp ''medium'', created_at = 0\<rparr>],
          (CreatedBody 1 (replicate 201 97) (cp ''medium''), 201))"
    using add_todo_stored [of ?d 0 "[]"] n
    unfolding c p by (simp add: utf8_error_replicate_a utf8_error_cp)
  with s show ?thesis by simp
qed

section \<open>Properties of update and delete\<close>

lemma db_begin_session: "db (begin_session rows) = rows"
  by (simp add: begin_session_def)

lemma pending_begin_session: "pending (begin_session rows) = rows"
  by (simp add: begin_session_def)

lemma params_begin_session: "params (begin_session rows) = []"
  by (simp add: begin_session_def)

lemma get_or_404_begin:
  "get_or_404 (begin_session rows) todo_id =
     (case query_get rows todo_id of None \<Rightarrow> Inl NotFound | Some t \<Rightarrow> Inr t)"
  by (simp add: get_or_404_def begin_session_def)

lemma query_get_id: "query_get rows todo_id = Some t \<Longrightarrow> id_pk t = todo_id"
  by (auto simp: query_get_def find_Some_iff)

lemma missing_id_update:
  "query_get rows todo_id = None \<Longrightarrow>
   update_todo rows todo_id data = (rows, (ErrorBody (str_exn NotFound), 400))"
  by (simp add: update_todo_def get_or_404_begin Let_def rollback_def teardown_def
      db_begin_session del: str_exn.simps)

lemma missing_id_delete:
  "query_get rows todo_id = None \<Longrightarrow>
   delete_todo rows todo_id = (rows, (ErrorBody (str_exn NotFound), 400))"
  by (simp add: delete_todo_def get_or_404_begin Let_def rollback_def teardown_def
      db_begin_session del: str_exn.simps)

lemma commit_cases:
  "(\<exists>e. commit s = Inl e) \<or> commit s = Inr (s\<lparr>db := pending s, params := []\<rparr>)"
  by (simp add: commit_def split: option.splits)

lemma update_content_db:
  "update_content s t data = Inr (s1, t1) \<Longrightarrow> db s1 = db s"
  by (auto simp: update_content_def Let_def assign_content_def split: if_splits)

lemma update_priority_db:
  "update_priority s t data = Inr (s1, t1) \<Longrightarrow> db s1 = db s"
  by (auto simp: update_priority_def assign_priority_def split: option.splits if_splits)

lemma update_content_status:
  "update_content s t data = Inl r \<Longrightarrow> snd r = 400"
  by (auto simp: update_content_def Let_def split: if_splits)

lemma update_priority_invalid:
  "data (cp ''priority'') = Some p \<Longrightarrow> p \<notin> {cp ''high'', cp ''medium'', cp ''low''} \<Longrightarrow>
   update_priority s t data = Inl (ErrorBody (cp ''Invalid priority value''), 400)"
  by (simp add: update_priority_def)

text \<open>
  C4. For a key that has a task, an update request that gives a priority other than high,
  medium and low is answered 400, a client error, and leaves the table, and so the stored
  task with its content, priority and creation time, as it was, whether or not the request
  gives a content as well.
\<close>

theorem update_invalid_priority:
  assumes "query_get rows todo_id = Some t"
    and "data (cp ''priority'') = Some p"
    and "p \<notin> {cp ''high'', cp ''medium'', cp ''low''}"
  shows "snd (snd (update_todo rows todo_id data)) = 400
    \<and> client_error (snd (snd (update_todo rows todo_id data)))
    \<and> fst (update_todo rows todo_id data) = rows
    \<and> query_get (fst (update_todo rows todo_id data)) todo_id = Some t"
proof -
  let ?s = "begin_session rows"
  have g: "get_or_404 ?s todo_id = Inr t"
    using assms(1) by (simp add: get_or_404_begin)
  have "update_todo rows todo_id data = (rows, r) \<and> snd r = 400" if "update_content ?s t data = Inl r" for r
    using that g update_content_status [OF that]
    by (simp add: update_todo_def Let_def teardown_def db_begin_session)
  moreover have "update_todo rows todo_id data = (rows, (ErrorBody (cp ''Invalid priority value''), 400))"
    if "update_content ?s t data = Inr (s1, t1)" for s1 t1
    using that g update_content_db [OF that] assms(2,3)
      update_priority_invalid [where data = data and p = p and s = s1 and t = t1]
    by (simp add: update_todo_def Let_def teardown_def db_begin_session)
  ultimately have "fst (update_todo rows todo_id data) = rows
      \<and> snd (snd (update_todo rows todo_id data)) = 400"
    by (cases "update_content ?s t data") auto
  then show ?thesis
    using assms(1) by (simp add: client_error_def)
qed

theorem update_invalid_priority_witness:
  "query_get [\<lparr>id_pk = 1, content = cp ''a'', priority = cp ''low'', created_at = 7\<rparr>] 1
     = Some \<lparr>id_pk = 1, content = cp ''a'', priority = cp ''low'', created_at = 7\<rparr>
   \<and> [cp ''content'' \<mapsto> cp ''b'', cp ''priority'' \<mapsto> cp ''urgent''] (cp ''priority'')
       = Some (cp ''urgent'')
   \<and> [cp ''content'' \<mapsto> cp ''b'', cp ''priority'' \<mapsto> cp ''urgent''] (cp ''content'')
       = Some (cp ''b'')
   \<and> cp ''urgent'' \<notin> {cp ''high'', cp ''medium'', cp ''low''}
   \<and> snd (snd (update_todo
         [\<lparr>id_pk = 1, content = cp ''a'', priority = cp ''low'', created_at = 7\<rparr>] 1
         [cp ''content'' \<mapsto> cp ''b'', cp ''priority'' \<mapsto> cp ''urgent''])) = 400
   \<and> fst (update_todo
         [\<lparr>id_pk = 1, content = cp ''a'', priority = cp ''low'', created_at = 7\<rparr>] 1
         [cp ''content'' \<mapsto> cp ''b'', cp ''priority'' \<mapsto> cp ''urgent''])
       = [\<lparr>id_pk = 1, content = cp ''a'', priority = cp ''low'', created_at = 7\<rparr>]"
proof -
  let ?t = "\<lparr>id_pk = 1, content = cp ''a'', priority = cp ''low'', created_at = 7\<rparr>"
  let ?data = "[cp ''content'' \<mapsto> cp ''b'', cp ''priority'' \<mapsto> cp ''urgent'']"
  have a: "query_get [?t] 1 = Some ?t"
    by (simp add: query_get_def)
  have b: "?data (cp ''priority'') = Some (cp ''urgent'')"
    by simp
  have c: "cp ''urgent'' \<notin> {cp ''high'', cp ''medium'', cp ''low''}"
    by (simp add: cp_eq_iff)
  have d: "?data (cp ''content'') = Some (cp ''b'')"
    by (simp add: cp_eq_iff)
  show ?thesis
    using update_invalid_priority [where rows = "[?t]" and todo_id = 1 and t = ?t
        and data = ?data and p = "cp ''urgent''"] a b c d
    by simp
qed

text \<open>What a request leaves of the columns of the table.\<close>

lemma assign_content_frame:
  "assign_content s t v = (s1, t1) \<Longrightarrow>
   db s1 = db s \<and> id_pk t1 = id_pk t
   \<and> map id_pk (pending s1) = map id_pk (pending s)
   \<and> map created_at (pending s1) = map created_at (pending s)
   \<and> map priority (pending s1) = map priority (pending s)
   \<and> (\<forall>i < length (pending s). id_pk (pending s ! i) \<noteq> id_pk t \<longrightarrow> pending s1 ! i = pending s ! i)"
  by (auto simp: assign_content_def)

lemma assign_priority_frame:
  "assign_priority s t v = (s1, t1) \<Longrightarrow>
   db s1 = db s \<and> id_pk t1 = id_pk t
   \<and> map id_pk (pending s1) = map id_pk (pending s)
   \<and> map created_at (pending s1) = map created_at (pending s)
   \<and> map content (pending s1) = map content (pending s)
   \<and> (\<forall>i < length (pending s). id_pk (pending s ! i) \<noteq> id_pk t \<longrightarrow> pending s1 ! i = pending s ! i)"
  by (auto simp: assign_priority_def)

lemma update_content_frame:
  assumes "update_content s t data = Inr (s1, t1)"
  shows "id_pk t1 = id_pk t
   \<and> map id_pk (pending s1) = map id_pk (pending s)
   \<and> map created_at (pending s1) = map created_at (pending s)
   \<and> map priority (pending s1) = map priority (pending s)
   \<and> (data (cp ''content'') = None \<longrightarrow> pending s1 = pending s)
   \<and> (\<forall>i < length (pending s). id_pk (pending s ! i) \<noteq> id_pk t \<longrightarrow> pending s1 ! i = pending s ! i)"
proof (cases "data (cp ''content'') = None")
  case True
  with assms show ?thesis by (simp add: update_content_def)
next
  case False
  with assms have "assign_content s t (strip (dict_get data (cp ''content'') [])) = (s1, t1)"
    by (simp add: update_content_def Let_def split: if_splits)
  from assign_content_frame [OF this] False show ?thesis by auto
qed

lemma update_priority_frame:
  assumes "update_priority s t data = Inr (s1, t1)"
  shows "id_pk t1 = id_pk t
   \<and> map id_pk (pending s1) = map id_pk (pending s)
   \<and> map created_at (pending s1) = map created_at (pending s)
   \<and> map content (pending s1) = map content (pending s)
   \<and> (data (cp ''priority'') = None \<longrightarrow> pending s1 = pending s)
   \<and> (\<forall>i < length (pending s). id_pk (pending s ! i) \<noteq> id_pk t \<longrightarrow> pending s1 ! i = pending s ! i)"
proof (cases "data (cp ''priority'')")
  case None
  with assms show ?thesis by (simp add: update_priority_def)
next
  case (Some v)
  with assms have "assign_priority s t v = (s1, t1)"
    by (simp add: update_priority_def split: if_splits)
  from assign_priority_frame [OF this] Some show ?thesis by auto
qed

lemma update_todo_cases:
  assumes "update_todo rows todo_id data = (rows', r)"
  shows "rows' = rows
   \<or> (\<exists>t s1 t1 s2 t2. query_get rows todo_id = Some t
        \<and> update_content (begin_session rows) t data = Inr (s1, t1)
        \<and> update_priority s1 t1 data = Inr (s2, t2)
        \<and> rows' = pending s2)"
proof (cases "query_get rows todo_id")
  case None
  with assms show ?thesis by (simp add: missing_id_update)
next
  case (Some t)
  then have g: "get_or_404 (begin_session rows) todo_id = Inr t"
    by (simp add: get_or_404_begin)
  show ?thesis
  proof (cases "update_content (begin_session rows) t data")
    case (Inl r1)
    with assms g show ?thesis
      by (simp add: update_todo_def Let_def teardown_def db_begin_session)
  next
    case (Inr p1)
    then obtain s1 t1 where c: "update_content (begin_session rows) t data = Inr (s1, t1)"
      by (cases p1) simp
    have d1: "db s1 = rows"
      using update_content_db [OF c] by (simp add: db_begin_session)
    show ?thesis
    proof (cases "update_priority s1 t1 data")
      case (Inl r2)
      with assms g c d1 show ?thesis
        by (simp add: update_todo_def Let_def teardown_def)
    next
      case (Inr p2)
      then obtain s2 t2 where p: "update_priority s1 t1 data = Inr (s2, t2)"
        by (cases p2) simp
      have d2: "db s2 = rows"
        using update_priority_db [OF p] d1 by simp
      from commit_cases [of s2] show ?thesis
      proof
        assume "\<exists>e. commit s2 = Inl e"
        then obtain e where "commit s2 = Inl e" ..
        with assms g c p d2 have "rows' = rows"
          by (simp add: update_todo_def Let_def teardown_def rollback_def)
        then show ?thesis ..
      next
        assume "commit s2 = Inr (s2\<lparr>db := pending s2, params := []\<rparr>)"
        with assms g c p have "rows' = pending s2"
          by (simp add: update_todo_def Let_def teardown_def)
        with Some c p show ?thesis by blast
      qed
    qed
  qed
qed

text \<open>
  C8. An update request, answered with success or not, leaves the key and the creation
  time of every task as they were. It leaves every content as it was when it gives no
  content, every priority as it was when it gives no priority, and every task of another
  key as it was.
\<close>

theorem update_frame:
  "map id_pk (fst (update_todo rows todo_id data)) = map id_pk rows
   \<and> map created_at (fst (update_todo rows todo_id data)) = map created_at rows
   \<and> (data (cp ''content'') = None \<longrightarrow>
        map content (fst (update_todo rows todo_id data)) = map content rows)
   \<and> (data (cp ''priority'') = None \<longrightarrow>
        map priority (fst (update_todo rows todo_id data)) = map priority rows)
   \<and> (\<forall>i < length rows. id_pk (rows ! i) \<noteq> todo_id \<longrightarrow>
        fst (update_todo rows todo_id data) ! i = rows ! i)"
proof -
  obtain rows' r where u: "update_todo rows todo_id data = (rows', r)"
    by (cases "update_todo rows todo_id data")
  from update_todo_cases [OF u] show ?thesis
  proof
    assume "rows' = rows"
    with u show ?thesis by simp
  next
    assume "\<exists>t s1 t1 s2 t2. query_get rows todo_id = Some t
        \<and> update_content (begin_session rows) t data = Inr (s1, t1)
        \<and> update_priority s1 t1 data = Inr (s2, t2)
        \<and> rows' = pending s2"
    then obtain t s1 t1 s2 t2 where q: "query_get rows todo_id = Some t"
      and c: "update_content (begin_session rows) t data = Inr (s1, t1)"
      and p: "update_priority s1 t1 data = Inr (s2, t2)"
      and rows': "rows' = pending s2"
      by blast
    have b: "pending (begin_session rows) = rows"
      by (rule pending_begin_session)
    have l: "length (pending s1) = length rows"
      using update_content_frame [OF c] b by (metis length_map)
    note fc = update_content_frame [OF c, unfolded b query_get_id [OF q]]
    note fp = update_priority_frame [OF p]
    have "fst (update_todo rows todo_id data) = pending s2"
      using u rows' by simp
    moreover have "\<forall>i < length rows. id_pk (rows ! i) \<noteq> todo_id \<longrightarrow> pending s2 ! i = rows ! i"
    proof (intro allI impI)
      fix i assume i: "i < length rows" and n: "id_pk (rows ! i) \<noteq> todo_id"
      from fc i n have 1: "pending s1 ! i = rows ! i" by simp
      from fc have "id_pk t1 = todo_id" by simp
      with fp l i n 1 show "pending s2 ! i = rows ! i" by simp
    qed
    ultimately show ?thesis
      using fc fp by simp
  qed
qed

theorem update_frame_witness:
  "[cp ''priority'' \<mapsto> cp ''high''] (cp ''content'') = None
   \<and> [cp ''content'' \<mapsto> cp ''b''] (cp ''priority'') = None
   \<and> (1::nat) < length [\<lparr>id_pk = 1, content = cp ''a'', priority = cp ''low'', created_at = 7\<rparr>,
                         \<lparr>id_pk = 2, content = cp ''c'', priority = cp ''low'', created_at = 8\<rparr>]
   \<and> id_pk ([\<lparr>id_pk = 1, content = cp ''a'', priority = cp ''low'', created_at = 7\<rparr>,
             \<lparr>id_pk = 2, content = cp ''c'', priority = cp ''low'', created_at = 8\<rparr>] ! 1) \<noteq> 1
   \<and> fst (update_todo
         [\<lparr>id_pk = 1, content = cp ''a'', priority = cp ''low'', created_at = 7\<rparr>,
          \<lparr>id_pk = 2, content = cp ''c'', priority = cp ''low'', created_at = 8\<rparr>] 1
         [cp ''priority'' \<mapsto> cp ''high''])
       = [\<lparr>id_pk = 1, content = cp ''a'', priority = cp ''high'', created_at = 7\<rparr>,
          \<lparr>id_pk = 2, content = cp ''c'', priority = cp ''low'', created_at = 8\<rparr>]
   \<and> fst (update_todo
         [\<lparr>id_pk = 1, content = cp ''a'', priority = cp ''low'', created_at = 7\<rparr>,
          \<lparr>id_pk = 2, content = cp ''c'', priority = cp ''low'', created_at = 8\<rparr>] 1
         [cp ''content'' \<mapsto> cp ''b''])
       = [\<lparr>id_pk = 1, content = cp ''b'', priority = cp ''low'', created_at = 7\<rparr>,
          \<lparr>id_pk = 2, content = cp ''c'', priority = cp ''low'', created_at = 8\<rparr>]"
proof -
  let ?rows = "[\<lparr>id_pk = 1, content = cp ''a'', priority = cp ''low'', created_at = 7\<rparr>,
               \<lparr>id_pk = 2, content = cp ''c'', priority = cp ''low'', created_at = 8\<rparr>]"
  have k: "cp ''content'' \<noteq> cp ''priority''" "cp ''priority'' \<noteq> cp ''content''"
    by (simp_all add: cp_eq_iff)
  have e: "cp ''high'' \<in> set [cp ''high'', cp ''medium'', cp ''low'']"
    by simp
  have s: "strip (cp ''b'') = cp ''b''" "cp ''b'' \<noteq> []"
    by (simp_all add: strip_def cp_def isspace_def)
  have u1: "fst (update_todo ?rows 1 [cp ''priority'' \<mapsto> cp ''high''])
       = [\<lparr>id_pk = 1, content = cp ''a'', priority = cp ''high'', created_at = 7\<rparr>,
          \<lparr>id_pk = 2, content = cp ''c'', priority = cp ''low'', created_at = 8\<rparr>]"
    using k e
    by (simp add: update_todo_def get_or_404_begin query_get_def update_content_def
        update_priority_def assign_priority_def Let_def commit_def teardown_def
        pending_begin_session params_begin_session cp_eq_iff utf8_error_cp
        del: set_simps)
  have u2: "fst (update_todo ?rows 1 [cp ''content'' \<mapsto> cp ''b''])
       = [\<lparr>id_pk = 1, content = cp ''b'', priority = cp ''low'', created_at = 7\<rparr>,
          \<lparr>id_pk = 2, content = cp ''c'', priority = cp ''low'', created_at = 8\<rparr>]"
    using k s
    by (simp add: update_todo_def get_or_404_begin query_get_def update_content_def
        update_priority_def assign_content_def Let_def commit_def teardown_def
        pending_begin_session params_begin_session cp_eq_iff utf8_error_cp dict_get_def)
  show ?thesis
    using update_frame [of ?rows 1 "[cp ''priority'' \<mapsto> cp ''high'']"]
      update_frame [of ?rows 1 "[cp ''content'' \<mapsto> cp ''b'']"] k u1 u2
    by simp
qed

lemma update_content_valid:
  assumes "update_content s t data = Inr (s1, t1)" "\<forall>r\<in>set (pending s). valid_todo r"
  shows "\<forall>r\<in>set (pending s1). valid_todo r"
  using assms
  by (fastforce simp: update_content_def assign_content_def Let_def valid_todo_def
      split: if_splits)

lemma update_priority_valid:
  assumes "update_priority s t data = Inr (s1, t1)" "\<forall>r\<in>set (pending s). valid_todo r"
  shows "\<forall>r\<in>set (pending s1). valid_todo r"
  using assms
  by (fastforce simp: update_priority_def assign_priority_def valid_todo_def
      split: option.splits if_splits)

lemma update_todo_valid:
  assumes "\<forall>t\<in>set rows. valid_todo t"
  shows "\<forall>t\<in>set (fst (update_todo rows todo_id data)). valid_todo t"
proof -
  obtain rows' r where u: "update_todo rows todo_id data = (rows', r)"
    by (cases "update_todo rows todo_id data")
  from update_todo_cases [OF u] have "\<forall>t\<in>set rows'. valid_todo t"
  proof
    assume "rows' = rows"
    with assms show ?thesis by simp
  next
    assume "\<exists>t s1 t1 s2 t2. query_get rows todo_id = Some t
        \<and> update_content (begin_session rows) t data = Inr (s1, t1)
        \<and> update_priority s1 t1 data = Inr (s2, t2)
        \<and> rows' = pending s2"
    then obtain t s1 t1 s2 t2
      where c: "update_content (begin_session rows) t data = Inr (s1, t1)"
        and p: "update_priority s1 t1 data = Inr (s2, t2)"
        and rows': "rows' = pending s2"
      by blast
    have "\<forall>r\<in>set (pending (begin_session rows)). valid_todo r"
      using assms by (simp add: pending_begin_session)
    from update_priority_valid [OF p update_content_valid [OF c this]] rows'
    show ?thesis by simp
  qed
  with u show ?thesis by simp
qed

lemma delete_todo_subset: "set (fst (delete_todo rows todo_id)) \<subseteq> set rows"
  by (auto simp: delete_todo_def get_or_404_begin Let_def teardown_def rollback_def
      db_begin_session pending_begin_session session_delete_def commit_def
      split: option.splits)

lemma delete_todo_valid:
  "\<forall>t\<in>set rows. valid_todo t \<Longrightarrow> \<forall>t\<in>set (fst (delete_todo rows todo_id)). valid_todo t"
  using delete_todo_subset by blast

text \<open>
  C5. For a key that has no task, delete and update are to fail as not found and to leave
  the table as it was. Both leave the table as it was, but the \<open>NotFound\<close> that
  \<open>get_or_404\<close> raises is caught by the handlers' own \<open>except Exception\<close>, and the
  answer is its message with status 400, not 404.
\<close>

theorem missing_id_status:
  "query_get [\<lparr>id_pk = 1, content = cp ''a'', priority = cp ''low'', created_at = 7\<rparr>] 2 = None
   \<and> update_todo [\<lparr>id_pk = 1, content = cp ''a'', priority = cp ''low'', created_at = 7\<rparr>] 2
        [cp ''content'' \<mapsto> cp ''b'']
       = ([\<lparr>id_pk = 1, content = cp ''a'', priority = cp ''low'', created_at = 7\<rparr>],
          (ErrorBody (str_exn NotFound), 400))
   \<and> delete_todo [\<lparr>id_pk = 1, content = cp ''a'', priority = cp ''low'', created_at = 7\<rparr>] 2
       = ([\<lparr>id_pk = 1, content = cp ''a'', priority = cp ''low'', created_at = 7\<rparr>],
          (ErrorBody (str_exn NotFound), 400))
   \<and> (400::nat) \<noteq> 404"
proof -
  have q: "query_get [\<lparr>id_pk = 1, content = cp ''a'', priority = cp ''low'', created_at = 7\<rparr>] 2 = None"
    by (simp add: query_get_def)
  show ?thesis
    by (simp only: q missing_id_update [OF q] missing_id_delete [OF q]) simp
qed

section \<open>Properties of the assistant\<close>

text \<open>
  C10. When the assistant is not available, every request, whatever its body, one with an
  empty or missing input included, is answered 503 with the message of unavailability and
  nothing is sent to the service; so a request answered 400 was served with the assistant
  available.
\<close>

theorem unavailable_before_validation:
  "(\<not> available \<longrightarrow>
      get_ai_response available model body
        = ((ErrorBody (cp ''AI assistant is not available''), 503), []))
   \<and> (snd (fst (get_ai_response available model body)) = 400 \<longrightarrow> available)"
  by (simp add: get_ai_response_def)

theorem unavailable_before_validation_witness:
  "get_ai_response False None (Object [cp ''input'' \<mapsto> JStr []])
     = ((ErrorBody (cp ''AI assistant is not available''), 503), [])
   \<and> get_ai_response False None (Object Map.empty)
     = ((ErrorBody (cp ''AI assistant is not available''), 503), [])
   \<and> get_ai_response False None (NotObject NoneType)
     = ((ErrorBody (cp ''AI assistant is not available''), 503), [])
   \<and> snd (fst (get_ai_response True None (Object [cp ''input'' \<mapsto> JStr []]))) = 400"
  using unavailable_before_validation [of False None "Object [cp ''input'' \<mapsto> JStr []]"]
    unavailable_before_validation [of False None "Object Map.empty"]
    unavailable_before_validation [of False None "NotObject NoneType"]
    unavailable_before_validation [of True None "Object [cp ''input'' \<mapsto> JStr []]"]
  by (simp add: get_ai_response_def dict_get_def)




end
